theory Spec2Isabelle
  imports Complex_Main "HOL-Library.Word"
begin

unbundle bit_operations_syntax

section \<open>JavaScript numbers\<close>

text \<open>
  The TypeScript type \<open>number\<close>: a finite value, one of the two infinities, or NaN.
  Finite results are computed exactly, over the reals (no rounding, no overflow to an
  infinity); the special values follow IEEE 754 as JavaScript has it: a non-zero number
  divided by zero is an infinity, zero times an infinity and zero divided by zero are NaN,
  NaN is absorbing, and every comparison with NaN is false. Zero carries no sign; the only
  divisors of the modelled code that can be zero are results of \<open>Math.sqrt\<close> applied to a
  sum of squares that starts at \<open>+0\<close>, so \<open>x / 0\<close> is \<open>x / +0\<close>. Where a computation
  meets only 0, 1, NaN and the infinities, its exact values are the values of the doubles.
\<close>

datatype number = Fin real | PInf | NInf | NaN

text \<open>The operator \<open>+\<close> on numbers.\<close>

fun nadd :: "number \<Rightarrow> number \<Rightarrow> number" where
  "nadd (Fin a) (Fin b) = Fin (a + b)"
| "nadd (Fin a) PInf = PInf"
| "nadd (Fin a) NInf = NInf"
| "nadd PInf (Fin b) = PInf"
| "nadd PInf PInf = PInf"
| "nadd PInf NInf = NaN"
| "nadd NInf (Fin b) = NInf"
| "nadd NInf PInf = NaN"
| "nadd NInf NInf = NInf"
| "nadd NaN y = NaN"
| "nadd x NaN = NaN"

text \<open>Unary minus, and the operator \<open>-\<close>.\<close>

fun nneg :: "number \<Rightarrow> number" where
  "nneg (Fin a) = Fin (- a)"
| "nneg PInf = NInf"
| "nneg NInf = PInf"
| "nneg NaN = NaN"

definition nsub :: "number \<Rightarrow> number \<Rightarrow> number" where
  "nsub x y = nadd x (nneg y)"

text \<open>The operator \<open>*\<close> on numbers.\<close>

fun nmul :: "number \<Rightarrow> number \<Rightarrow> number" where
  "nmul (Fin a) (Fin b) = Fin (a * b)"
| "nmul (Fin a) PInf = (if a = 0 then NaN else if 0 < a then PInf else NInf)"
| "nmul (Fin a) NInf = (if a = 0 then NaN else if 0 < a then NInf else PInf)"
| "nmul PInf (Fin b) = (if b = 0 then NaN else if 0 < b then PInf else NInf)"
| "nmul NInf (Fin b) = (if b = 0 then NaN else if 0 < b then NInf else PInf)"
| "nmul PInf PInf = PInf"
| "nmul PInf NInf = NInf"
| "nmul NInf PInf = NInf"
| "nmul NInf NInf = PInf"
| "nmul NaN y = NaN"
| "nmul x NaN = NaN"

text \<open>The operator \<open>/\<close> on numbers.\<close>

fun ndiv :: "number \<Rightarrow> number \<Rightarrow> number" where
  "ndiv (Fin a) (Fin b) =
     (if b = 0 then (if a = 0 then NaN else if 0 < a then PInf else NInf)
      else Fin (a / b))"
| "ndiv (Fin a) PInf = Fin 0"
| "ndiv (Fin a) NInf = Fin 0"
| "ndiv PInf (Fin b) = (if 0 \<le> b then PInf else NInf)"
| "ndiv NInf (Fin b) = (if 0 \<le> b then NInf else PInf)"
| "ndiv PInf PInf = NaN"
| "ndiv PInf NInf = NaN"
| "ndiv NInf PInf = NaN"
| "ndiv NInf NInf = NaN"
| "ndiv NaN y = NaN"
| "ndiv x NaN = NaN"

text \<open>\<open>Math.sqrt\<close>, \<open>Math.abs\<close> and \<open>x ** 2\<close>.\<close>

fun nsqrt :: "number \<Rightarrow> number" where
  "nsqrt (Fin a) = (if a < 0 then NaN else Fin (sqrt a))"
| "nsqrt PInf = PInf"
| "nsqrt NInf = NaN"
| "nsqrt NaN = NaN"

fun nabs :: "number \<Rightarrow> number" where
  "nabs (Fin a) = Fin \<bar>a\<bar>"
| "nabs PInf = PInf"
| "nabs NInf = PInf"
| "nabs NaN = NaN"

definition npow2 :: "number \<Rightarrow> number" where
  "npow2 x = nmul x x"

text \<open>The comparisons \<open><\<close> and \<open>>\<close>: false as soon as one side is NaN.\<close>

fun nlt :: "number \<Rightarrow> number \<Rightarrow> bool" where
  "nlt (Fin a) (Fin b) = (a < b)"
| "nlt (Fin a) PInf = True"
| "nlt NInf (Fin b) = True"
| "nlt NInf PInf = True"
| "nlt x y = False"

definition ngt :: "number \<Rightarrow> number \<Rightarrow> bool" where
  "ngt x y = nlt y x"

section \<open>Complex arithmetic (utils/complex-utils)\<close>

record Complex =
  creal :: number
  cimag :: number

definition complex :: "number \<Rightarrow> number \<Rightarrow> Complex" where
  "complex re im = \<lparr>creal = re, cimag = im\<rparr>"

definition ZERO :: Complex where
  "ZERO = complex (Fin 0) (Fin 0)"

definition ONE :: Complex where
  "ONE = complex (Fin 1) (Fin 0)"

definition add :: "Complex \<Rightarrow> Complex \<Rightarrow> Complex" where
  "add a b = \<lparr>creal = nadd (creal a) (creal b), cimag = nadd (cimag a) (cimag b)\<rparr>"

definition subtract :: "Complex \<Rightarrow> Complex \<Rightarrow> Complex" where
  "subtract a b = \<lparr>creal = nsub (creal a) (creal b), cimag = nsub (cimag a) (cimag b)\<rparr>"

definition multiply :: "Complex \<Rightarrow> Complex \<Rightarrow> Complex" where
  "multiply a b =
     \<lparr>creal = nsub (nmul (creal a) (creal b)) (nmul (cimag a) (cimag b)),
      cimag = nadd (nmul (creal a) (cimag b)) (nmul (cimag a) (creal b))\<rparr>"

text \<open>
  \<open>scale\<close> declares its second parameter a \<open>number\<close>, and some callers hand it a Complex
  object. The value that arrives is therefore either of the two. The operator \<open>*\<close>
  converts its operands with ToNumber, and ToNumber of a plain object
  \<open>{real, imag}\<close> is NaN.
\<close>

datatype jsvalue = JNumber number | JObject Complex

fun ToNumber :: "jsvalue \<Rightarrow> number" where
  "ToNumber (JNumber x) = x"
| "ToNumber (JObject c) = NaN"

definition scale :: "Complex \<Rightarrow> jsvalue \<Rightarrow> Complex" where
  "scale a scalar =
     \<lparr>creal = nmul (creal a) (ToNumber scalar), cimag = nmul (cimag a) (ToNumber scalar)\<rparr>"

definition conjugate :: "Complex \<Rightarrow> Complex" where
  "conjugate a = \<lparr>creal = creal a, cimag = nneg (cimag a)\<rparr>"

definition magnitude :: "Complex \<Rightarrow> number" where
  "magnitude a = nsqrt (nadd (nmul (creal a) (creal a)) (nmul (cimag a) (cimag a)))"

section \<open>Qubit (quantum/qubit.ts)\<close>

record Qubit =
  alpha :: Complex
  beta :: Complex

definition Qubit_normalize :: "Qubit \<Rightarrow> Qubit" where
  "Qubit_normalize q =
     (let norm = nsqrt (nadd (npow2 (magnitude (alpha q))) (npow2 (magnitude (beta q))))
      in if ngt norm (Fin 0)
         then q\<lparr>alpha := scale (alpha q) (JNumber (ndiv (Fin 1) norm)),
                beta := scale (beta q) (JNumber (ndiv (Fin 1) norm))\<rparr>
         else q)"

definition Qubit_setState :: "Complex \<Rightarrow> Complex \<Rightarrow> Qubit \<Rightarrow> Qubit" where
  "Qubit_setState a b q = Qubit_normalize (q\<lparr>alpha := a, beta := b\<rparr>)"

text \<open>The constructor, whose default arguments are \<open>ONE\<close> and \<open>ZERO\<close>.\<close>

definition new_Qubit :: "Complex \<Rightarrow> Complex \<Rightarrow> Qubit" where
  "new_Qubit a b = Qubit_normalize \<lparr>alpha = a, beta = b\<rparr>"

definition probabilityZero :: "Qubit \<Rightarrow> number" where
  "probabilityZero q = npow2 (magnitude (alpha q))"

definition probabilityOne :: "Qubit \<Rightarrow> number" where
  "probabilityOne q = npow2 (magnitude (beta q))"

text \<open>
  \<open>measure\<close> draws \<open>Math.random()\<close>, a number in [0, 1); the draw is the first argument.
  The result is the outcome and the collapsed qubit.
\<close>

definition Qubit_measure :: "real \<Rightarrow> Qubit \<Rightarrow> int \<times> Qubit" where
  "Qubit_measure random q =
     (let p0 = probabilityZero q
      in if nlt (Fin random) p0 then (0, Qubit_setState ONE ZERO q)
         else (1, Qubit_setState ZERO ONE q))"

definition Qubit_clone :: "Qubit \<Rightarrow> Qubit" where
  "Qubit_clone q = new_Qubit (alpha q) (beta q)"

section \<open>Errors\<close>

text \<open>One constructor for each \<open>throw\<close> of the modelled code, and one for the RangeError
  that \<open>Array(n)\<close> raises on a negative length.\<close>

datatype error =
    TooManyQubits
  | InvalidArrayLength
  | WrongDimension
  | NotNormalized
  | ExpectedSingleQubitGate
  | ExpectedTwoQubitGate
  | InvalidQubitIndex
  | SameQubit
  | GateArity string int int
  | GateRequiresQubits string int

section \<open>Gates (quantum/quantum-gates.ts)\<close>

text \<open>
  \<open>apply\<close> receives an array of Qubit objects and mutates them. The objects live in a
  store, a list of qubits; a reference to an object is its position in the store, so
  the same object can be passed twice. Every reference that the code holds is to an
  existing object: its position is below the length of the store. A gate is the record
  of its fields and of its \<open>apply\<close> method.
\<close>

type_synonym store = "Qubit list"

type_synonym ComplexMatrix = "Complex list list"

record QuantumGate =
  name :: string
  numQubits :: int
  matrix :: ComplexMatrix
  gate_apply :: "nat list \<Rightarrow> store \<Rightarrow> error + store"

definition SingleQubitGate_apply ::
  "string \<Rightarrow> ComplexMatrix \<Rightarrow> nat list \<Rightarrow> store \<Rightarrow> error + store" where
  "SingleQubitGate_apply nm m qubits st =
     (if length qubits \<noteq> 1 then Inl (GateRequiresQubits nm 1)
      else
        let qubit = qubits ! 0;
            newAlpha = add (multiply (m ! 0 ! 0) (alpha (st ! qubit)))
                           (multiply (m ! 0 ! 1) (beta (st ! qubit)));
            newBeta = add (multiply (m ! 1 ! 0) (alpha (st ! qubit)))
                          (multiply (m ! 1 ! 1) (beta (st ! qubit)))
        in Inr (st[qubit := Qubit_setState newAlpha newBeta (st ! qubit)]))"

definition SingleQubitGate :: "string \<Rightarrow> ComplexMatrix \<Rightarrow> QuantumGate" where
  "SingleQubitGate nm m =
     \<lparr>name = nm, numQubits = 1, matrix = m, gate_apply = SingleQubitGate_apply nm m\<rparr>"

definition HadamardGate :: QuantumGate where
  "HadamardGate = SingleQubitGate ''H''
     [ [scale ONE (JNumber (ndiv (Fin 1) (nsqrt (Fin 2)))),
        scale ONE (JNumber (ndiv (Fin 1) (nsqrt (Fin 2))))],
       [scale ONE (JNumber (ndiv (Fin 1) (nsqrt (Fin 2)))),
        scale ONE (JNumber (ndiv (Fin (- 1)) (nsqrt (Fin 2))))] ]"

definition PauliXGate :: QuantumGate where
  "PauliXGate = SingleQubitGate ''X'' [ [ZERO, ONE], [ONE, ZERO] ]"

definition PauliZGate :: QuantumGate where
  "PauliZGate = SingleQubitGate ''Z'' [ [ONE, ZERO], [ZERO, scale ONE (JNumber (Fin (- 1)))] ]"

definition CNOTGate_apply :: "nat list \<Rightarrow> store \<Rightarrow> error + store" where
  "CNOTGate_apply qubits st =
     (if length qubits \<noteq> 2 then Inl (GateRequiresQubits ''CNOT'' 2)
      else
        let control = qubits ! 0; target = qubits ! 1
        in if ngt (probabilityOne (st ! control)) (Fin 0)
           then
             let p1 = probabilityOne (st ! control);
                 newAlpha = complex
                   (nadd (nmul (creal (alpha (st ! target))) (nsub (Fin 1) p1))
                         (nmul (creal (beta (st ! target))) p1))
                   (nadd (nmul (cimag (alpha (st ! target))) (nsub (Fin 1) p1))
                         (nmul (cimag (beta (st ! target))) p1));
                 newBeta = complex
                   (nadd (nmul (creal (beta (st ! target))) (nsub (Fin 1) p1))
                         (nmul (creal (alpha (st ! target))) p1))
                   (nadd (nmul (cimag (beta (st ! target))) (nsub (Fin 1) p1))
                         (nmul (cimag (alpha (st ! target))) p1))
             in Inr (st[target := Qubit_setState newAlpha newBeta (st ! target)])
           else Inr st)"

definition CNOTGate :: QuantumGate where
  "CNOTGate =
     \<lparr>name = ''CNOT'', numQubits = 2,
      matrix = [ [ONE, ZERO, ZERO, ZERO],
                 [ZERO, ONE, ZERO, ZERO],
                 [ZERO, ZERO, ZERO, ONE],
                 [ZERO, ZERO, ONE, ZERO] ],
      gate_apply = CNOTGate_apply\<rparr>"

definition CZGate_apply :: "nat list \<Rightarrow> store \<Rightarrow> error + store" where
  "CZGate_apply qubits st =
     (if length qubits \<noteq> 2 then Inl (GateRequiresQubits ''CZ'' 2)
      else
        let control = qubits ! 0; target = qubits ! 1
        in if ngt (probabilityOne (st ! control)) (Fin 0)
           then
             let p1 = probabilityOne (st ! control);
                 newBeta = scale (beta (st ! target))
                             (JObject (complex (nsub (Fin 1) (nmul (Fin 2) p1)) (Fin 0)))
             in Inr (st[target := Qubit_setState (alpha (st ! target)) newBeta (st ! target)])
           else Inr st)"

definition CZGate :: QuantumGate where
  "CZGate =
     \<lparr>name = ''CZ'', numQubits = 2,
      matrix = [ [ONE, ZERO, ZERO, ZERO],
                 [ZERO, ONE, ZERO, ZERO],
                 [ZERO, ZERO, ONE, ZERO],
                 [ZERO, ZERO, ZERO, scale ONE (JNumber (Fin (- 1)))] ],
      gate_apply = CZGate_apply\<rparr>"

definition SWAPGate_apply :: "nat list \<Rightarrow> store \<Rightarrow> error + store" where
  "SWAPGate_apply qubits st =
     (if length qubits \<noteq> 2 then Inl (GateRequiresQubits ''SWAP'' 2)
      else
        let q1 = qubits ! 0; q2 = qubits ! 1;
            tempAlpha = alpha (st ! q1);
            tempBeta = beta (st ! q1);
            st1 = st[q1 := Qubit_setState (alpha (st ! q2)) (beta (st ! q2)) (st ! q1)]
        in Inr (st1[q2 := Qubit_setState tempAlpha tempBeta (st1 ! q2)]))"

definition SWAPGate :: QuantumGate where
  "SWAPGate =
     \<lparr>name = ''SWAP'', numQubits = 2,
      matrix = [ [ONE, ZERO, ZERO, ZERO],
                 [ZERO, ZERO, ONE, ZERO],
                 [ZERO, ONE, ZERO, ZERO],
                 [ZERO, ZERO, ZERO, ONE] ],
      gate_apply = SWAPGate_apply\<rparr>"

section \<open>The local circuit (quantum/quantum-circuit.ts)\<close>

text \<open>
  The circuit owns its qubits: \<open>qubits\<close> is its store, and the qubit of index \<open>i\<close> is the
  object at position \<open>i\<close>. Qubit counts and indices are integers. A method returns what
  it returns or throws, and the circuit as it leaves it.
\<close>

record QuantumCircuit =
  qubits :: store
  operations :: "(QuantumGate \<times> int list) list"

definition new_QuantumCircuit :: "int \<Rightarrow> error + QuantumCircuit" where
  "new_QuantumCircuit n =
     (if n < 0 then Inl InvalidArrayLength
      else Inr \<lparr>qubits = replicate (nat n) (new_Qubit ONE ZERO), operations = []\<rparr>)"

definition initialize ::
  "int \<Rightarrow> Complex \<Rightarrow> Complex \<Rightarrow> QuantumCircuit \<Rightarrow> (error + unit) \<times> QuantumCircuit" where
  "initialize index a b c =
     (if index < 0 \<or> index \<ge> int (length (qubits c)) then (Inl InvalidQubitIndex, c)
      else (Inr (),
            c\<lparr>qubits := (qubits c)[nat index := Qubit_setState a b (qubits c ! nat index)]\<rparr>))"

definition addGate ::
  "QuantumGate \<Rightarrow> int list \<Rightarrow> QuantumCircuit \<Rightarrow> (error + unit) \<times> QuantumCircuit" where
  "addGate gate qs c =
     (if int (length qs) \<noteq> numQubits gate
      then (Inl (GateArity (name gate) (numQubits gate) (int (length qs))), c)
      else if \<exists>index \<in> set qs. index < 0 \<or> index \<ge> int (length (qubits c))
      then (Inl InvalidQubitIndex, c)
      else (Inr (), c\<lparr>operations := operations c @ [(gate, qs)]\<rparr>))"

text \<open>\<open>execute\<close>: the loop over the recorded operations; a throwing gate ends it.\<close>

fun execute_loop :: "(QuantumGate \<times> int list) list \<Rightarrow> store \<Rightarrow> (error + unit) \<times> store" where
  "execute_loop [] st = (Inr (), st)"
| "execute_loop ((gate, qs) # ops) st =
     (case gate_apply gate (map nat qs) st of
        Inl e \<Rightarrow> (Inl e, st)
      | Inr st' \<Rightarrow> execute_loop ops st')"

definition execute :: "QuantumCircuit \<Rightarrow> (error + unit) \<times> QuantumCircuit" where
  "execute c =
     (case execute_loop (operations c) (qubits c) of
        (r, st) \<Rightarrow> (r, c\<lparr>qubits := st\<rparr>))"

section \<open>Bitwise operators on integer-valued numbers\<close>

text \<open>
  The bitwise operators convert their operands with ToInt32 (wrap to 32 bits, read as
  two's complement) and take a shift count modulo 32.
\<close>

definition ToInt32 :: "int \<Rightarrow> int" where
  "ToInt32 x = (let r = x mod 2 ^ 32 in if r \<ge> 2 ^ 31 then r - 2 ^ 32 else r)"

definition shl :: "int \<Rightarrow> int \<Rightarrow> int" where
  "shl a b = ToInt32 (push_bit (nat (b mod 32)) (ToInt32 a))"

definition shr :: "int \<Rightarrow> int \<Rightarrow> int" where
  "shr a b = drop_bit (nat (b mod 32)) (ToInt32 a)"

definition band :: "int \<Rightarrow> int \<Rightarrow> int" where
  "band a b = ToInt32 a AND ToInt32 b"

definition bor :: "int \<Rightarrow> int \<Rightarrow> int" where
  "bor a b = ToInt32 a OR ToInt32 b"

definition bxor :: "int \<Rightarrow> int \<Rightarrow> int" where
  "bxor a b = ToInt32 a XOR ToInt32 b"

definition bnot :: "int \<Rightarrow> int" where
  "bnot a = NOT (ToInt32 a)"

section \<open>The state vector (quantum/state-vector.ts)\<close>

text \<open>
  The two private fields; the number of qubits and the qubit indices are integers. A
  method returns what it returns or throws, and the object as it leaves it.
  \<open>Array(n)\<close> throws a RangeError when \<open>n\<close> is negative. The loops run over
  \<open>i = 0, ..., dimension - 1\<close> and read \<open>_stateVector[i]\<close>; the array of every object
  that the class produces has that length (\<open>new_StateVector_length\<close> and the lemmas
  after it).
\<close>

record StateVector =
  sv_numQubits :: int
  sv_stateVector :: "Complex list"

definition new_StateVector :: "int \<Rightarrow> error + StateVector" where
  "new_StateVector n =
     (if n > 15 then Inl TooManyQubits
      else
        let dimension = shl 1 n
        in if dimension < 0 then Inl InvalidArrayLength
           else Inr \<lparr>sv_numQubits = n,
                     sv_stateVector = (replicate (nat dimension) ZERO)[0 := ONE]\<rparr>)"

definition dimension :: "StateVector \<Rightarrow> int" where
  "dimension s = shl 1 (sv_numQubits s)"

text \<open>The sum of squared magnitudes, as the loop of \<open>setState\<close> accumulates it.\<close>

definition norm_sq :: "Complex list \<Rightarrow> number" where
  "norm_sq v = fold (\<lambda>amplitude norm. nadd norm (npow2 (magnitude amplitude))) v (Fin 0)"

definition StateVector_setState ::
  "Complex list \<Rightarrow> StateVector \<Rightarrow> (error + unit) \<times> StateVector" where
  "StateVector_setState v s =
     (if int (length v) \<noteq> dimension s then (Inl WrongDimension, s)
      else if ngt (nabs (nsub (norm_sq v) (Fin 1))) (Fin (1 / 10 ^ 10))
      then (Inl NotNormalized, s)
      else (Inr (), s\<lparr>sv_stateVector := v\<rparr>))"

text \<open>The body of the loop of \<open>applySingleQubitGate\<close>, for the basis state \<open>i\<close>.\<close>

definition single_step ::
  "ComplexMatrix \<Rightarrow> int \<Rightarrow> Complex list \<Rightarrow> nat \<Rightarrow> Complex list \<Rightarrow> Complex list" where
  "single_step m qubitIndex sv i new =
     (let bit = band (shr (int i) qubitIndex) 1;
          flippedIndex = nat (bxor (int i) (shl 1 qubitIndex))
      in if bit = 0
         then
           let new1 = new[i := add (new ! i) (scale (sv ! i) (JObject (m ! 0 ! 0)))]
           in new1[flippedIndex :=
                     add (new1 ! flippedIndex) (scale (sv ! i) (JObject (m ! 1 ! 0)))]
         else
           let new1 = new[flippedIndex :=
                            add (new ! flippedIndex) (scale (sv ! i) (JObject (m ! 0 ! 1)))]
           in new1[i := add (new1 ! i) (scale (sv ! i) (JObject (m ! 1 ! 1)))])"

definition applySingleQubitGate ::
  "QuantumGate \<Rightarrow> int \<Rightarrow> StateVector \<Rightarrow> (error + unit) \<times> StateVector" where
  "applySingleQubitGate gate qubitIndex s =
     (if numQubits gate \<noteq> 1 then (Inl ExpectedSingleQubitGate, s)
      else if qubitIndex < 0 \<or> qubitIndex \<ge> sv_numQubits s then (Inl InvalidQubitIndex, s)
      else if dimension s < 0 then (Inl InvalidArrayLength, s)
      else
        let d = nat (dimension s);
            newStateVector =
              fold (single_step (matrix gate) qubitIndex (sv_stateVector s)) [0..<d]
                (replicate d ZERO)
        in (Inr (), s\<lparr>sv_stateVector := newStateVector\<rparr>))"

text \<open>The body of the inner loop of \<open>applyTwoQubitGate\<close>, for the basis state \<open>i\<close> and
  the output state \<open>j\<close>.\<close>

definition two_step ::
  "ComplexMatrix \<Rightarrow> int \<Rightarrow> int \<Rightarrow> Complex list \<Rightarrow> nat \<Rightarrow> nat \<Rightarrow> Complex list
     \<Rightarrow> Complex list" where
  "two_step m control target sv i j new =
     (let controlBit = band (shr (int i) control) 1;
          targetBit = band (shr (int i) target) 1;
          stateIndex = nat (bor (shl controlBit 1) targetBit);
          newControlBit = band (shr (int j) 1) 1;
          newTargetBit = band (int j) 1;
          newState = nat (bor (bor (band (int i) (bnot (bor (shl 1 control) (shl 1 target))))
                                   (shl newControlBit control))
                              (shl newTargetBit target))
      in new[newState := add (new ! newState) (scale (sv ! i) (JObject (m ! stateIndex ! j)))])"

definition applyTwoQubitGate ::
  "QuantumGate \<Rightarrow> int \<times> int \<Rightarrow> StateVector \<Rightarrow> (error + unit) \<times> StateVector" where
  "applyTwoQubitGate gate qubitIndices s =
     (if numQubits gate \<noteq> 2 then (Inl ExpectedTwoQubitGate, s)
      else
        let q1 = fst qubitIndices; q2 = snd qubitIndices
        in if q1 < 0 \<or> q1 \<ge> sv_numQubits s \<or> q2 < 0 \<or> q2 \<ge> sv_numQubits s
           then (Inl InvalidQubitIndex, s)
           else if q1 = q2 then (Inl SameQubit, s)
           else if dimension s < 0 then (Inl InvalidArrayLength, s)
           else
             let control = (if q1 < q2 then q1 else q2);
                 target = (if q1 < q2 then q2 else q1);
                 d = nat (dimension s);
                 newStateVector =
                   fold (\<lambda>i new. fold (two_step (matrix gate) control target
                                             (sv_stateVector s) i) [0..<4] new)
                     [0..<d] (replicate d ZERO)
             in (Inr (), s\<lparr>sv_stateVector := newStateVector\<rparr>))"

text \<open>
  The three loops of \<open>measure\<close>: the mass of the basis states whose bit \<open>qubitIndex\<close> is
  1, the collapse (the kept amplitudes and their mass), and the division by the square
  root of that mass.
\<close>

definition measure_prob1 :: "int \<Rightarrow> Complex list \<Rightarrow> nat \<Rightarrow> number" where
  "measure_prob1 qubitIndex sv d =
     fold (\<lambda>i prob1. if band (shr (int i) qubitIndex) 1 = 1
                      then nadd prob1 (npow2 (magnitude (sv ! i))) else prob1)
       [0..<d] (Fin 0)"

definition measure_collapse ::
  "int \<Rightarrow> int \<Rightarrow> Complex list \<Rightarrow> nat \<Rightarrow> Complex list \<times> number" where
  "measure_collapse qubitIndex result sv d =
     fold (\<lambda>i (new, normalizationFactor).
             if band (shr (int i) qubitIndex) 1 = result
             then (new[i := sv ! i], nadd normalizationFactor (npow2 (magnitude (sv ! i))))
             else (new, normalizationFactor))
       [0..<d] (replicate d ZERO, Fin 0)"

definition measure_renormalize :: "number \<Rightarrow> Complex list \<Rightarrow> nat \<Rightarrow> Complex list" where
  "measure_renormalize normalizationFactor new d =
     fold (\<lambda>i new. new[i := scale (new ! i) (JNumber (ndiv (Fin 1) normalizationFactor))])
       [0..<d] new"

text \<open>\<open>measure\<close>; the second argument is the draw of \<open>Math.random()\<close>. The array
  for the collapsed state is allocated after the outcome is drawn.\<close>

definition StateVector_measure ::
  "int \<Rightarrow> real \<Rightarrow> StateVector \<Rightarrow> (error + int) \<times> StateVector" where
  "StateVector_measure qubitIndex random s =
     (if qubitIndex < 0 \<or> qubitIndex \<ge> sv_numQubits s then (Inl InvalidQubitIndex, s)
      else if dimension s < 0 then (Inl InvalidArrayLength, s)
      else
        let d = nat (dimension s);
            prob1 = measure_prob1 qubitIndex (sv_stateVector s) d;
            result = (if nlt (Fin random) prob1 then 1 else 0);
            collapsed = measure_collapse qubitIndex result (sv_stateVector s) d;
            normalizationFactor = nsqrt (snd collapsed);
            newStateVector = measure_renormalize normalizationFactor (fst collapsed) d
        in (Inr result, s\<lparr>sv_stateVector := newStateVector\<rparr>))"

section \<open>Notions used in the statements and proofs\<close>

text \<open>The accumulation of \<open>magnitude(sv[i]) ** 2\<close> over the indices \<open>i < k\<close> that satisfy
  \<open>P\<close>, in the order of the loops of \<open>measure\<close>.\<close>

definition mass :: "(nat \<Rightarrow> bool) \<Rightarrow> Complex list \<Rightarrow> nat \<Rightarrow> number" where
  "mass P sv k =
     fold (\<lambda>i p. if P i then nadd p (npow2 (magnitude (sv ! i))) else p) [0..<k] (Fin 0)"

text \<open>\<open>x\<close> is a finite number within \<open>tol\<close> of \<open>c\<close>.\<close>

fun approx :: "number \<Rightarrow> real \<Rightarrow> real \<Rightarrow> bool" where
  "approx (Fin r) c tol = (\<bar>r - c\<bar> \<le> tol)"
| "approx x c tol = False"

section \<open>Basic facts\<close>

lemma magnitude_ZERO: "magnitude ZERO = Fin 0"
  by (simp add: magnitude_def ZERO_def complex_def)

lemma magnitude_ONE: "magnitude ONE = Fin 1"
  by (simp add: magnitude_def ONE_def complex_def)

lemma ONE_neq_ZERO: "ONE \<noteq> ZERO"
  by (simp add: ONE_def ZERO_def complex_def)

lemma setState_ONE_ZERO: "Qubit_setState ONE ZERO q = \<lparr>alpha = ONE, beta = ZERO\<rparr>"
  by (simp add: Qubit_setState_def Qubit_normalize_def magnitude_def npow2_def
      ngt_def scale_def ONE_def ZERO_def complex_def Let_def)

lemma setState_ZERO_ONE: "Qubit_setState ZERO ONE q = \<lparr>alpha = ZERO, beta = ONE\<rparr>"
  by (simp add: Qubit_setState_def Qubit_normalize_def magnitude_def npow2_def
      ngt_def scale_def ONE_def ZERO_def complex_def Let_def)

lemma setState_ZERO_ZERO: "Qubit_setState ZERO ZERO q = \<lparr>alpha = ZERO, beta = ZERO\<rparr>"
  by (simp add: Qubit_setState_def Qubit_normalize_def magnitude_ZERO npow2_def ngt_def Let_def)

lemma new_Qubit_default: "new_Qubit ONE ZERO = \<lparr>alpha = ONE, beta = ZERO\<rparr>"
  by (simp add: new_Qubit_def Qubit_normalize_def magnitude_def npow2_def
      ngt_def scale_def ONE_def ZERO_def complex_def Let_def)

text \<open>\<open>Qubit.measure\<close> leaves exactly \<open>(ONE, ZERO)\<close> or \<open>(ZERO, ONE)\<close>, and a second
  \<open>measure\<close> with a draw in [0, 1) returns the first outcome again.\<close>

lemma Qubit_measure_repeats:
  assumes "Qubit_measure r1 q = (b, q')" and "0 \<le> r2" and "r2 < 1"
  shows "fst (Qubit_measure r2 q') = b"
  using assms
  by (auto simp add: setState_ONE_ZERO setState_ZERO_ONE Qubit_measure_def
      probabilityZero_def magnitude_ZERO magnitude_ONE npow2_def Let_def split: if_splits)

text \<open>The shifts and masks that the loops over a one-qubit vector evaluate.\<close>

lemma shl_1_0: "shl 1 0 = 1"
  by (simp add: shl_def ToInt32_def push_bit_eq_mult)

lemma shl_1_1: "shl 1 1 = 2"
  by (simp add: shl_def ToInt32_def push_bit_eq_mult)

lemma shl_1_15: "shl 1 15 = 32768"
  by (simp add: shl_def ToInt32_def push_bit_eq_mult)

lemma shr_0: "shr 0 0 = 0" "shr 1 0 = 1"
  by (simp_all add: shr_def ToInt32_def)

lemma band_1: "band 0 1 = 0" "band 1 1 = 1"
  by (simp_all add: band_def ToInt32_def)

lemma bxor_1: "bxor 0 1 = 1" "bxor 1 1 = 0"
  by (simp_all add: bxor_def ToInt32_def)

lemma upt_2: "[0..<2] = [0, Suc 0]"
  by (simp add: numeral_2_eq_2)

lemma replicate_32768: "(replicate 32768 x)[0 := y] = y # replicate 32767 x"
proof -
  have "(32768::nat) = Suc 32767" by simp
  then show ?thesis by (simp only: replicate_Suc list_update_code)
qed

lemma new_StateVector_1:
  "new_StateVector 1 = Inr \<lparr>sv_numQubits = 1, sv_stateVector = [ONE, ZERO]\<rparr>"
  by (simp add: new_StateVector_def shl_1_1 numeral_2_eq_2)

section \<open>The loops of \<open>measure\<close>\<close>

lemma mass_0: "mass P sv 0 = Fin 0"
  by (simp add: mass_def)

lemma mass_Suc: "mass P sv (Suc k) = (if P k then nadd (mass P sv k) (npow2 (magnitude (sv ! k))) else mass P sv k)"
  by (simp add: mass_def)

lemma mass_const:
  assumes "\<forall>i<k. P i \<longrightarrow> npow2 (magnitude (sv ! i)) = t" and "t = Fin 0 \<or> t = NaN"
  shows "mass P sv k = Fin 0 \<or> mass P sv k = NaN"
  using assms by (induction k) (auto simp add: mass_0 mass_Suc)

lemma prob1_mass: "measure_prob1 q sv d = mass (\<lambda>i. band (shr (int i) q) 1 = 1) sv d"
  by (simp add: measure_prob1_def mass_def)

lemma collapse_gen:
  "k \<le> d \<Longrightarrow>
   fold (\<lambda>i (new, nf). if P i then (new[i := sv ! i], nadd nf (npow2 (magnitude (sv ! i)))) else (new, nf))
     [0..<k] (replicate d ZERO, Fin 0)
   = (map (\<lambda>i. if i < k \<and> P i then sv ! i else ZERO) [0..<d], mass P sv k)"
proof (induction k)
  case 0
  then show ?case by (simp add: mass_0 map_replicate_const)
next
  case (Suc k)
  have upd: "(map (\<lambda>i. if i < k \<and> P i then sv ! i else ZERO) [0..<d])[k := sv ! k]
      = map (\<lambda>i. if i < Suc k \<and> P i then sv ! i else ZERO) [0..<d]" if "P k"
    using that Suc.prems by (intro nth_equalityI) (auto simp add: nth_list_update less_Suc_eq)
  have same: "map (\<lambda>i. if i < k \<and> P i then sv ! i else ZERO) [0..<d]
      = map (\<lambda>i. if i < Suc k \<and> P i then sv ! i else ZERO) [0..<d]" if "\<not> P k"
    using that by (auto simp add: less_Suc_eq)
  from Suc show ?case
    by (auto simp add: mass_Suc upd same)
qed

lemma collapse_eq:
  "measure_collapse q result sv d
   = (map (\<lambda>i. if band (shr (int i) q) 1 = result then sv ! i else ZERO) [0..<d],
      mass (\<lambda>i. band (shr (int i) q) 1 = result) sv d)"
proof -
  have "measure_collapse q result sv d
    = (map (\<lambda>i. if i < d \<and> band (shr (int i) q) 1 = result then sv ! i else ZERO) [0..<d],
       mass (\<lambda>i. band (shr (int i) q) 1 = result) sv d)"
    unfolding measure_collapse_def by (rule collapse_gen) simp
  also have "map (\<lambda>i. if i < d \<and> band (shr (int i) q) 1 = result then sv ! i else ZERO) [0..<d]
    = map (\<lambda>i. if band (shr (int i) q) 1 = result then sv ! i else ZERO) [0..<d]"
    by simp
  finally show ?thesis .
qed

lemma renorm_gen:
  "k \<le> length new \<Longrightarrow>
   fold (\<lambda>i new. new[i := g (new ! i)]) [0..<k] new
   = map (\<lambda>i. if i < k then g (new ! i) else new ! i) [0..<length new]"
proof (induction k)
  case 0
  then show ?case by (simp add: map_nth)
next
  case (Suc k)
  then show ?case
    by (auto intro!: nth_equalityI simp add: nth_list_update less_Suc_eq)
qed

lemma renorm_eq:
  "length new = d \<Longrightarrow> measure_renormalize nf new d
     = map (\<lambda>a. scale a (JNumber (ndiv (Fin 1) nf))) new"
  unfolding measure_renormalize_def
  by (subst renorm_gen) (auto intro!: nth_equalityI)

lemma scale_complex: "scale (complex (Fin x) (Fin y)) (JNumber (Fin c)) = complex (Fin (x * c)) (Fin (y * c))"
  by (simp add: scale_def complex_def)

lemma msq_scale_ZERO:
  "npow2 (magnitude (scale ZERO (JNumber v))) = Fin 0 \<or> npow2 (magnitude (scale ZERO (JNumber v))) = NaN"
  by (cases v) (simp_all add: scale_def ZERO_def complex_def magnitude_def npow2_def)

text \<open>What \<open>measure\<close> returns for a valid index, with its three loops in closed form.\<close>

lemma measure_eq:
  assumes "0 \<le> q" and "q < sv_numQubits s" and "0 \<le> dimension s"
  shows "StateVector_measure q r s =
    (let d = nat (dimension s);
         result = (if nlt (Fin r) (mass (\<lambda>i. band (shr (int i) q) 1 = 1) (sv_stateVector s) d) then 1 else 0);
         nf = mass (\<lambda>i. band (shr (int i) q) 1 = result) (sv_stateVector s) d
     in (Inr result,
         s\<lparr>sv_stateVector :=
             map (\<lambda>i. scale (if band (shr (int i) q) 1 = result then sv_stateVector s ! i else ZERO)
                         (JNumber (ndiv (Fin 1) (nsqrt nf)))) [0..<d]\<rparr>))"
  using assms
  by (simp add: StateVector_measure_def Let_def prob1_mass collapse_eq renorm_eq o_def)

lemma measure_Inr_valid:
  "StateVector_measure q r s = (Inr b, s')
    \<Longrightarrow> 0 \<le> q \<and> q < sv_numQubits s \<and> 0 \<le> dimension s"
  by (auto simp add: StateVector_measure_def split: if_splits)

lemma dimension_upd: "dimension (s\<lparr>sv_stateVector := v\<rparr>) = dimension s"
  by (simp add: dimension_def)

text \<open>
  After the outcome 0, the amplitudes of the basis states whose bit is 1 are \<open>ZERO\<close>
  scaled, of squared magnitude 0 or NaN; their mass is 0 or NaN, no draw in [0, 1) is
  below it, and a second \<open>measure\<close> of the same qubit returns 0 again.
\<close>

lemma collapse_zero:
  assumes m: "StateVector_measure q r1 s = (Inr 0, s')" and r2: "0 \<le> r2"
  shows "fst (StateVector_measure q r2 s') = Inr 0"
proof -
  from m have v: "0 \<le> q" "q < sv_numQubits s" "0 \<le> dimension s"
    using measure_Inr_valid by blast+
  define d where "d = nat (dimension s)"
  define B where "B = (\<lambda>i. band (shr (int i) q) 1)"
  obtain c where s': "s' = s\<lparr>sv_stateVector := map (\<lambda>i. scale (if B i = 0 then sv_stateVector s ! i else ZERO) (JNumber c)) [0..<d]\<rparr>"
    using m unfolding measure_eq[OF v] Let_def d_def B_def by (auto split: if_splits)
  have v': "0 \<le> q" "q < sv_numQubits s'" "0 \<le> dimension s'"
    using v s' by (simp_all add: dimension_upd)
  have d': "nat (dimension s') = d" by (simp add: s' dimension_upd d_def)
  have "\<forall>i<d. B i = 1 \<longrightarrow> npow2 (magnitude (sv_stateVector s' ! i)) = npow2 (magnitude (scale ZERO (JNumber c)))"
    by (simp add: s')
  then have "mass (\<lambda>i. B i = 1) (sv_stateVector s') d = Fin 0 \<or> mass (\<lambda>i. B i = 1) (sv_stateVector s') d = NaN"
    by (rule mass_const) (rule msq_scale_ZERO)
  then have "\<not> nlt (Fin r2) (mass (\<lambda>i. B i = 1) (sv_stateVector s') d)"
    using r2 by auto
  then show ?thesis
    unfolding measure_eq[OF v'] Let_def d' by (simp add: B_def)
qed

section \<open>The array keeps the dimension of the object\<close>

lemma new_StateVector_length:
  "new_StateVector n = Inr s \<Longrightarrow> length (sv_stateVector s) = nat (dimension s)"
  by (auto simp add: new_StateVector_def dimension_def Let_def split: if_splits)

lemma setState_length:
  assumes "length (sv_stateVector s) = nat (dimension s)"
  shows "length (sv_stateVector (snd (StateVector_setState v s)))
     = nat (dimension (snd (StateVector_setState v s)))"
  using assms by (auto simp add: StateVector_setState_def dimension_def)

lemma length_single_loop: "length (fold (single_step m q sv) xs new) = length new"
  by (induction xs arbitrary: new) (simp_all add: single_step_def Let_def)

lemma applySingleQubitGate_length:
  assumes "length (sv_stateVector s) = nat (dimension s)"
  shows "length (sv_stateVector (snd (applySingleQubitGate g q s)))
     = nat (dimension (snd (applySingleQubitGate g q s)))"
  using assms
  by (simp add: applySingleQubitGate_def Let_def length_single_loop dimension_def)

lemma length_two_inner: "length (fold (two_step m c t sv i) js new) = length new"
  by (induction js arbitrary: new) (simp_all add: two_step_def Let_def)

lemma length_two_loop:
  "length (fold (\<lambda>i new. fold (two_step m c t sv i) js new) xs new) = length new"
  by (induction xs arbitrary: new) (simp_all add: length_two_inner)

lemma applyTwoQubitGate_length:
  assumes "length (sv_stateVector s) = nat (dimension s)"
  shows "length (sv_stateVector (snd (applyTwoQubitGate g qs s)))
     = nat (dimension (snd (applyTwoQubitGate g qs s)))"
  using assms
  by (simp add: applyTwoQubitGate_def Let_def length_two_loop dimension_def)

lemma measure_length:
  assumes "length (sv_stateVector s) = nat (dimension s)"
  shows "length (sv_stateVector (snd (StateVector_measure q r s)))
     = nat (dimension (snd (StateVector_measure q r s)))"
proof (cases "0 \<le> q \<and> q < sv_numQubits s \<and> 0 \<le> dimension s")
  case True
  then show ?thesis
    by (simp add: measure_eq Let_def dimension_upd)
next
  case False
  then show ?thesis
    using assms by (auto simp add: StateVector_measure_def)
qed

section \<open>\<open>scale\<close> and \<open>multiply\<close>\<close>

lemma multiply_finite:
  "multiply (complex (Fin x1) (Fin y1)) (complex (Fin x2) (Fin y2))
    = complex (Fin (Re (Complex x1 y1 * Complex x2 y2))) (Fin (Im (Complex x1 y1 * Complex x2 y2)))"
  by (simp add: multiply_def complex_def nsub_def)

lemma scale_obj: "scale ONE (JObject ONE) = complex NaN NaN"
  by (simp add: scale_def complex_def ONE_def)

lemma mult_ONE: "multiply ONE ONE = ONE"
  by (simp add: multiply_def ONE_def complex_def nsub_def)

section \<open>The claims\<close>

text \<open>
  C6. Constructing a StateVector with 16 qubits fails with the capacity error, and with 15
  qubits it succeeds: the object holds \<open>2 ^ 15 = 32768\<close> amplitudes, the first of them
  \<open>ONE\<close> and the other 32767 \<open>ZERO\<close>.
\<close>

theorem capacity_boundary:
  "new_StateVector 16 = Inl TooManyQubits
   \<and> new_StateVector 15
       = Inr \<lparr>sv_numQubits = 15, sv_stateVector = ONE # replicate (2 ^ 15 - 1) ZERO\<rparr>"
  by (simp add: new_StateVector_def shl_1_15 replicate_32768)

text \<open>
  C7. \<open>addGate\<close> throws, and leaves the circuit as it was, when the number of indices is
  not the arity of the gate or when an index is outside \<open>[0, numQubits)\<close>; otherwise it
  appends the operation. \<open>applyTwoQubitGate\<close> throws on two identical indices, whatever
  the gate and the state, and leaves the state as it was; for a two-qubit gate and an
  index in range the error is the one of the identical indices.
\<close>

theorem shape_validation:
  "(int (length qs) \<noteq> numQubits gate
      \<or> (\<exists>index \<in> set qs. index < 0 \<or> int (length (qubits c)) \<le> index)
     \<longrightarrow> (\<exists>e. addGate gate qs c = (Inl e, c)))
   \<and> (int (length qs) = numQubits gate
      \<and> (\<forall>index \<in> set qs. 0 \<le> index \<and> index < int (length (qubits c)))
     \<longrightarrow> addGate gate qs c = (Inr (), c\<lparr>operations := operations c @ [(gate, qs)]\<rparr>))
   \<and> (\<exists>e. applyTwoQubitGate gate2 (q, q) s = (Inl e, s))
   \<and> (numQubits gate2 = 2 \<and> 0 \<le> q \<and> q < sv_numQubits s
     \<longrightarrow> applyTwoQubitGate gate2 (q, q) s = (Inl SameQubit, s))"
proof -
  have "\<exists>e. addGate gate qs c = (Inl e, c)"
    if "int (length qs) \<noteq> numQubits gate
        \<or> (\<exists>index \<in> set qs. index < 0 \<or> int (length (qubits c)) \<le> index)"
    using that by (auto simp add: addGate_def)
  moreover have "addGate gate qs c = (Inr (), c\<lparr>operations := operations c @ [(gate, qs)]\<rparr>)"
    if "int (length qs) = numQubits gate
        \<and> (\<forall>index \<in> set qs. 0 \<le> index \<and> index < int (length (qubits c)))"
    using that by (auto simp add: addGate_def)
  moreover have "\<exists>e. applyTwoQubitGate gate2 (q, q) s = (Inl e, s)"
    by (simp add: applyTwoQubitGate_def Let_def)
  moreover have "applyTwoQubitGate gate2 (q, q) s = (Inl SameQubit, s)"
    if "numQubits gate2 = 2 \<and> 0 \<le> q \<and> q < sv_numQubits s"
    using that by (simp add: applyTwoQubitGate_def Let_def)
  ultimately show ?thesis by blast
qed

theorem shape_validation_witness:
  "(int (length [0, 1 :: int]) \<noteq> numQubits HadamardGate
    \<and> addGate HadamardGate [0, 1]
         \<lparr>qubits = [\<lparr>alpha = ONE, beta = ZERO\<rparr>, \<lparr>alpha = ONE, beta = ZERO\<rparr>], operations = []\<rparr>
       = (Inl (GateArity ''H'' 1 2),
          \<lparr>qubits = [\<lparr>alpha = ONE, beta = ZERO\<rparr>, \<lparr>alpha = ONE, beta = ZERO\<rparr>], operations = []\<rparr>))
   \<and> (int (length [1 :: int]) = numQubits HadamardGate
    \<and> addGate HadamardGate [1]
         \<lparr>qubits = [\<lparr>alpha = ONE, beta = ZERO\<rparr>, \<lparr>alpha = ONE, beta = ZERO\<rparr>], operations = []\<rparr>
       = (Inr (),
          \<lparr>qubits = [\<lparr>alpha = ONE, beta = ZERO\<rparr>, \<lparr>alpha = ONE, beta = ZERO\<rparr>],
           operations = [(HadamardGate, [1])]\<rparr>))
   \<and> ((5 :: int) \<in> set [5] \<and> int (length [\<lparr>alpha = ONE, beta = ZERO\<rparr>, \<lparr>alpha = ONE, beta = ZERO\<rparr>]) \<le> 5
    \<and> addGate HadamardGate [5]
         \<lparr>qubits = [\<lparr>alpha = ONE, beta = ZERO\<rparr>, \<lparr>alpha = ONE, beta = ZERO\<rparr>], operations = []\<rparr>
       = (Inl InvalidQubitIndex,
          \<lparr>qubits = [\<lparr>alpha = ONE, beta = ZERO\<rparr>, \<lparr>alpha = ONE, beta = ZERO\<rparr>], operations = []\<rparr>))
   \<and> (numQubits CNOTGate = 2 \<and> (0 :: int) \<le> 0 \<and> (0 :: int) < 1
    \<and> applyTwoQubitGate CNOTGate (0, 0) \<lparr>sv_numQubits = 1, sv_stateVector = [ONE, ZERO]\<rparr>
       = (Inl SameQubit, \<lparr>sv_numQubits = 1, sv_stateVector = [ONE, ZERO]\<rparr>))"
  using
    shape_validation [of "[0, 1]" HadamardGate
      "\<lparr>qubits = [\<lparr>alpha = ONE, beta = ZERO\<rparr>, \<lparr>alpha = ONE, beta = ZERO\<rparr>], operations = []\<rparr>"
      CNOTGate 0 "\<lparr>sv_numQubits = 1, sv_stateVector = [ONE, ZERO]\<rparr>"]
    shape_validation [of "[1]" HadamardGate
      "\<lparr>qubits = [\<lparr>alpha = ONE, beta = ZERO\<rparr>, \<lparr>alpha = ONE, beta = ZERO\<rparr>], operations = []\<rparr>"
      CNOTGate 0 "\<lparr>sv_numQubits = 1, sv_stateVector = [ONE, ZERO]\<rparr>"]
    shape_validation [of "[5]" HadamardGate
      "\<lparr>qubits = [\<lparr>alpha = ONE, beta = ZERO\<rparr>, \<lparr>alpha = ONE, beta = ZERO\<rparr>], operations = []\<rparr>"
      CNOTGate 0 "\<lparr>sv_numQubits = 1, sv_stateVector = [ONE, ZERO]\<rparr>"]
  by (simp add: HadamardGate_def SingleQubitGate_def CNOTGate_def addGate_def)

text \<open>
  C8. In the local model, \<open>CNOT.apply\<close> on a control qubit whose \<open>probabilityOne()\<close> is 0
  changes nothing: the store, and so the target's \<open>alpha\<close> and \<open>beta\<close>, is returned as it
  was.
\<close>

theorem CNOT_control_zero:
  assumes "probabilityOne (st ! control) = Fin 0"
  shows "gate_apply CNOTGate [control, target] st = Inr st"
  using assms by (simp add: CNOTGate_def CNOTGate_apply_def ngt_def)

theorem CNOT_control_zero_witness:
  "probabilityOne ([\<lparr>alpha = ONE, beta = ZERO\<rparr>, \<lparr>alpha = ZERO, beta = ONE\<rparr>] ! 0) = Fin 0
   \<and> gate_apply CNOTGate [0, 1] [\<lparr>alpha = ONE, beta = ZERO\<rparr>, \<lparr>alpha = ZERO, beta = ONE\<rparr>]
       = Inr [\<lparr>alpha = ONE, beta = ZERO\<rparr>, \<lparr>alpha = ZERO, beta = ONE\<rparr>]"
proof -
  have h: "probabilityOne ([\<lparr>alpha = ONE, beta = ZERO\<rparr>, \<lparr>alpha = ZERO, beta = ONE\<rparr>] ! 0) = Fin 0"
    by (simp add: probabilityOne_def magnitude_ZERO npow2_def)
  show ?thesis using h CNOT_control_zero [OF h, of 1] by simp
qed

text \<open>
  C9. \<open>setState(ZERO, ZERO)\<close> leaves the qubit at the zero vector (the normalization is
  skipped). On that qubit \<open>measure\<close> returns 1 for every draw in [0, 1) and leaves the
  qubit at exactly \<open>alpha = ZERO\<close>, \<open>beta = ONE\<close>, whose two probabilities add up to 1.
\<close>

theorem zero_qubit_measure:
  assumes "0 \<le> random" and "random < 1"
  shows "Qubit_setState ZERO ZERO q = \<lparr>alpha = ZERO, beta = ZERO\<rparr>
    \<and> Qubit_measure random (Qubit_setState ZERO ZERO q) = (1, \<lparr>alpha = ZERO, beta = ONE\<rparr>)
    \<and> nadd (probabilityZero \<lparr>alpha = ZERO, beta = ONE\<rparr>)
            (probabilityOne \<lparr>alpha = ZERO, beta = ONE\<rparr>) = Fin 1"
  using assms
  by (simp add: setState_ZERO_ZERO setState_ZERO_ONE Qubit_measure_def probabilityZero_def
      probabilityOne_def magnitude_ZERO magnitude_ONE npow2_def)

theorem zero_qubit_measure_witness:
  "(0 :: real) \<le> 1 / 2 \<and> (1 / 2 :: real) < 1
   \<and> Qubit_measure (1 / 2) (Qubit_setState ZERO ZERO \<lparr>alpha = ONE, beta = ZERO\<rparr>)
       = (1, \<lparr>alpha = ZERO, beta = ONE\<rparr>)"
proof -
  have h: "(0 :: real) \<le> 1 / 2" "(1 / 2 :: real) < 1" by simp_all
  show ?thesis
    using h zero_qubit_measure [OF h, of "\<lparr>alpha = ONE, beta = ZERO\<rparr>"] by blast
qed

text \<open>
  C10, as amended. When control and target are two different objects, \<open>CNOT.apply\<close> and
  \<open>CZ.apply\<close> return normally and leave the control qubit, and every qubit other than
  the target, as it was. (Passed the same object twice, \<open>CNOT.apply\<close> changes it.)
\<close>

theorem control_unchanged:
  assumes "control \<noteq> target"
  shows "(\<exists>st'. gate_apply CNOTGate [control, target] st = Inr st'
            \<and> st' ! control = st ! control \<and> (\<forall>i. i \<noteq> target \<longrightarrow> st' ! i = st ! i))
       \<and> (\<exists>st'. gate_apply CZGate [control, target] st = Inr st'
            \<and> st' ! control = st ! control \<and> (\<forall>i. i \<noteq> target \<longrightarrow> st' ! i = st ! i))"
  using assms
  by (simp add: CNOTGate_def CNOTGate_apply_def CZGate_def CZGate_apply_def Let_def)

theorem control_unchanged_witness:
  "(0 :: nat) \<noteq> 1
   \<and> gate_apply CNOTGate [0, 1] [\<lparr>alpha = ZERO, beta = ONE\<rparr>, \<lparr>alpha = ONE, beta = ZERO\<rparr>]
       = Inr [\<lparr>alpha = ZERO, beta = ONE\<rparr>, \<lparr>alpha = ZERO, beta = ONE\<rparr>]
   \<and> (\<exists>st'. gate_apply CZGate [0, 1] [\<lparr>alpha = ZERO, beta = ONE\<rparr>, \<lparr>alpha = ONE, beta = ZERO\<rparr>]
               = Inr st'
            \<and> st' ! 0 = \<lparr>alpha = ZERO, beta = ONE\<rparr>)"
proof -
  have h: "(0 :: nat) \<noteq> 1" by simp
  have "gate_apply CNOTGate [0, 1] [\<lparr>alpha = ZERO, beta = ONE\<rparr>, \<lparr>alpha = ONE, beta = ZERO\<rparr>]
       = Inr [\<lparr>alpha = ZERO, beta = ONE\<rparr>, \<lparr>alpha = ZERO, beta = ONE\<rparr>]"
    by (simp add: CNOTGate_def CNOTGate_apply_def Let_def probabilityOne_def npow2_def ngt_def
        Qubit_setState_def Qubit_normalize_def nsub_def ZERO_def ONE_def complex_def
        magnitude_def scale_def)
  then show ?thesis
    using h control_unchanged [OF h, of "[\<lparr>alpha = ZERO, beta = ONE\<rparr>, \<lparr>alpha = ONE, beta = ZERO\<rparr>]"]
    by auto
qed

text \<open>
  \<open>addGate\<close> accepts the indices \<open>[0, 0]\<close>; \<open>execute\<close> then hands \<open>CNOT.apply\<close> the same
  object as control and as target, and the control, which was at \<open>alpha = ZERO\<close>,
  \<open>beta = ONE\<close>, is left at \<open>alpha = ONE\<close>, \<open>beta = ZERO\<close>.
\<close>

theorem control_changed_when_aliased:
  "addGate CNOTGate [0, 0] \<lparr>qubits = [\<lparr>alpha = ZERO, beta = ONE\<rparr>], operations = []\<rparr>
     = (Inr (), \<lparr>qubits = [\<lparr>alpha = ZERO, beta = ONE\<rparr>], operations = [(CNOTGate, [0, 0])]\<rparr>)
   \<and> qubits (snd (execute \<lparr>qubits = [\<lparr>alpha = ZERO, beta = ONE\<rparr>],
                             operations = [(CNOTGate, [0, 0])]\<rparr>))
     = [\<lparr>alpha = ONE, beta = ZERO\<rparr>]
   \<and> gate_apply CNOTGate [0, 0] [\<lparr>alpha = ZERO, beta = ONE\<rparr>] = Inr [\<lparr>alpha = ONE, beta = ZERO\<rparr>]
   \<and> alpha \<lparr>alpha = ONE, beta = ZERO\<rparr> \<noteq> alpha \<lparr>alpha = ZERO, beta = ONE\<rparr>"
proof -
  have a: "gate_apply CNOTGate [0, 0] [\<lparr>alpha = ZERO, beta = ONE\<rparr>]
      = Inr [\<lparr>alpha = ONE, beta = ZERO\<rparr>]"
    by (simp add: CNOTGate_def CNOTGate_apply_def Let_def probabilityOne_def npow2_def ngt_def
        Qubit_setState_def Qubit_normalize_def nsub_def ZERO_def ONE_def complex_def
        magnitude_def scale_def)
  have b: "numQubits CNOTGate = 2"
    by (simp add: CNOTGate_def)
  show ?thesis
    by (simp add: a b addGate_def execute_def ONE_neq_ZERO)
qed

text \<open>
  C1, at the failing input. A fresh one-qubit vector is set to the state
  \<open>[0, 0.99999999999]\<close>, which \<open>setState\<close> accepts (its squared norm is within
  \<open>1e-10\<close> of 1). \<open>measure(0)\<close> with the draw \<open>0.999999999999\<close> yields the outcome 0,
  whose surviving mass is exactly 0; the division is not guarded, and both amplitudes
  come out NaN.
\<close>

theorem measure_zero_mass_NaN:
  "new_StateVector 1 = Inr \<lparr>sv_numQubits = 1, sv_stateVector = [ONE, ZERO]\<rparr>
   \<and> StateVector_setState [ZERO, complex (Fin (99999999999 / 10 ^ 11)) (Fin 0)]
         \<lparr>sv_numQubits = 1, sv_stateVector = [ONE, ZERO]\<rparr>
       = (Inr (), \<lparr>sv_numQubits = 1,
                   sv_stateVector = [ZERO, complex (Fin (99999999999 / 10 ^ 11)) (Fin 0)]\<rparr>)
   \<and> snd (measure_collapse 0 0 [ZERO, complex (Fin (99999999999 / 10 ^ 11)) (Fin 0)] 2) = Fin 0
   \<and> StateVector_measure 0 (999999999999 / 10 ^ 12)
         \<lparr>sv_numQubits = 1,
          sv_stateVector = [ZERO, complex (Fin (99999999999 / 10 ^ 11)) (Fin 0)]\<rparr>
       = (Inr 0, \<lparr>sv_numQubits = 1, sv_stateVector = [complex NaN NaN, complex NaN NaN]\<rparr>)"
proof -
  have a: "StateVector_setState [ZERO, complex (Fin (99999999999 / 10 ^ 11)) (Fin 0)]
         \<lparr>sv_numQubits = 1, sv_stateVector = [ONE, ZERO]\<rparr>
       = (Inr (), \<lparr>sv_numQubits = 1,
                   sv_stateVector = [ZERO, complex (Fin (99999999999 / 10 ^ 11)) (Fin 0)]\<rparr>)"
    by (simp add: StateVector_setState_def dimension_def shl_1_1 norm_sq_def magnitude_def
        npow2_def ZERO_def complex_def nsub_def ngt_def)
  have b: "snd (measure_collapse 0 0 [ZERO, complex (Fin (99999999999 / 10 ^ 11)) (Fin 0)] 2)
       = Fin 0"
    by (simp add: upt_2 measure_collapse_def band_1 shr_0 magnitude_def npow2_def
        ZERO_def complex_def)
  have c: "StateVector_measure 0 (999999999999 / 10 ^ 12)
         \<lparr>sv_numQubits = 1,
          sv_stateVector = [ZERO, complex (Fin (99999999999 / 10 ^ 11)) (Fin 0)]\<rparr>
       = (Inr 0, \<lparr>sv_numQubits = 1, sv_stateVector = [complex NaN NaN, complex NaN NaN]\<rparr>)"
    by (simp add: StateVector_measure_def dimension_def shl_1_1 upt_2 measure_prob1_def
        measure_collapse_def measure_renormalize_def band_1 shr_0 magnitude_def npow2_def
        ZERO_def complex_def scale_def numeral_2_eq_2)
  show ?thesis
    using a b c new_StateVector_1 by simp
qed

text \<open>
  C3, at the failing input. On a fresh one-qubit vector, \<open>applySingleQubitGate(H, 0)\<close>
  hands each matrix element, a Complex object, to \<open>scale\<close>; the products are NaN, and
  after the first application, and again after the second, both amplitudes are NaN.
\<close>

theorem hadamard_twice_NaN:
  "new_StateVector 1 = Inr \<lparr>sv_numQubits = 1, sv_stateVector = [ONE, ZERO]\<rparr>
   \<and> applySingleQubitGate HadamardGate 0 \<lparr>sv_numQubits = 1, sv_stateVector = [ONE, ZERO]\<rparr>
       = (Inr (), \<lparr>sv_numQubits = 1, sv_stateVector = [complex NaN NaN, complex NaN NaN]\<rparr>)
   \<and> applySingleQubitGate HadamardGate 0
         \<lparr>sv_numQubits = 1, sv_stateVector = [complex NaN NaN, complex NaN NaN]\<rparr>
       = (Inr (), \<lparr>sv_numQubits = 1, sv_stateVector = [complex NaN NaN, complex NaN NaN]\<rparr>)"
proof -
  have a: "applySingleQubitGate HadamardGate 0 \<lparr>sv_numQubits = 1, sv_stateVector = [ONE, ZERO]\<rparr>
       = (Inr (), \<lparr>sv_numQubits = 1, sv_stateVector = [complex NaN NaN, complex NaN NaN]\<rparr>)"
    by (simp add: applySingleQubitGate_def HadamardGate_def SingleQubitGate_def dimension_def
        shl_1_1 upt_2 single_step_def band_1 shr_0 bxor_1 shl_1_0 scale_def add_def
        complex_def ONE_def ZERO_def numeral_2_eq_2)
  have b: "applySingleQubitGate HadamardGate 0
         \<lparr>sv_numQubits = 1, sv_stateVector = [complex NaN NaN, complex NaN NaN]\<rparr>
       = (Inr (), \<lparr>sv_numQubits = 1, sv_stateVector = [complex NaN NaN, complex NaN NaN]\<rparr>)"
    by (simp add: applySingleQubitGate_def HadamardGate_def SingleQubitGate_def dimension_def
        shl_1_1 upt_2 single_step_def band_1 shr_0 bxor_1 shl_1_0 scale_def add_def
        complex_def ONE_def ZERO_def numeral_2_eq_2)
  show ?thesis
    using a b new_StateVector_1 by simp
qed

text \<open>
  C4, as amended. \<open>scale\<close> scales by a number: both parts are multiplied by it, which on
  finite values is the product of the reals. The standard complex product is what
  \<open>multiply\<close> computes: on finite values, the product of the two complex numbers
  (\<open>Complex x y\<close> is the complex number \<open>x + iy\<close> of the library, and \<open>Re\<close> and \<open>Im\<close> are
  its parts).
\<close>

theorem scale_by_number:
  "scale a (JNumber s) = complex (nmul (creal a) s) (nmul (cimag a) s)
   \<and> scale (complex (Fin x) (Fin y)) (JNumber (Fin c)) = complex (Fin (x * c)) (Fin (y * c))
   \<and> multiply (complex (Fin x1) (Fin y1)) (complex (Fin x2) (Fin y2))
       = complex (Fin (Re (Complex x1 y1 * Complex x2 y2)))
                 (Fin (Im (Complex x1 y1 * Complex x2 y2)))"
  by (simp add: scale_complex multiply_finite) (simp add: scale_def complex_def)

text \<open>Handed a Complex, \<open>scale\<close> returns NaN parts: \<open>scale(ONE, ONE)\<close> is not the
  product of \<open>ONE\<close> and \<open>ONE\<close>.\<close>

theorem scale_by_Complex_not_product:
  "scale ONE (JObject ONE) = complex NaN NaN
   \<and> multiply ONE ONE = ONE
   \<and> scale ONE (JObject ONE) \<noteq> multiply ONE ONE"
  by (simp add: scale_obj mult_ONE) (simp add: ONE_def complex_def)

text \<open>
  C2, at two failing inputs, both sequences of gate applications from the initial
  state. On a fresh one-qubit StateVector, \<open>applySingleQubitGate(X, 0)\<close> hands the matrix
  elements to \<open>scale\<close>; both amplitudes are NaN and so is the sum of squared magnitudes,
  which is not within \<open>1e-9\<close> of 1. In a circuit of two qubits, X on qubit 0 and then CZ
  on qubits 0 and 1: \<open>CZ.apply\<close> hands a Complex to \<open>scale\<close>, the target's \<open>beta\<close> is NaN,
  \<open>normalize\<close> skips the division since \<open>NaN > 0\<close> is false, and the two probabilities of
  the target add up to NaN.
\<close>

theorem gates_break_normalization:
  "new_StateVector 1 = Inr \<lparr>sv_numQubits = 1, sv_stateVector = [ONE, ZERO]\<rparr>
   \<and> applySingleQubitGate PauliXGate 0 \<lparr>sv_numQubits = 1, sv_stateVector = [ONE, ZERO]\<rparr>
       = (Inr (), \<lparr>sv_numQubits = 1, sv_stateVector = [complex NaN NaN, complex NaN NaN]\<rparr>)
   \<and> norm_sq [complex NaN NaN, complex NaN NaN] = NaN
   \<and> \<not> approx (norm_sq [complex NaN NaN, complex NaN NaN]) 1 (1 / 10 ^ 9)
   \<and> new_QuantumCircuit 2
       = Inr \<lparr>qubits = [\<lparr>alpha = ONE, beta = ZERO\<rparr>, \<lparr>alpha = ONE, beta = ZERO\<rparr>],
              operations = []\<rparr>
   \<and> addGate PauliXGate [0]
         \<lparr>qubits = [\<lparr>alpha = ONE, beta = ZERO\<rparr>, \<lparr>alpha = ONE, beta = ZERO\<rparr>],
          operations = []\<rparr>
       = (Inr (), \<lparr>qubits = [\<lparr>alpha = ONE, beta = ZERO\<rparr>, \<lparr>alpha = ONE, beta = ZERO\<rparr>],
                   operations = [(PauliXGate, [0])]\<rparr>)
   \<and> addGate CZGate [0, 1]
         \<lparr>qubits = [\<lparr>alpha = ONE, beta = ZERO\<rparr>, \<lparr>alpha = ONE, beta = ZERO\<rparr>],
          operations = [(PauliXGate, [0])]\<rparr>
       = (Inr (), \<lparr>qubits = [\<lparr>alpha = ONE, beta = ZERO\<rparr>, \<lparr>alpha = ONE, beta = ZERO\<rparr>],
                   operations = [(PauliXGate, [0]), (CZGate, [0, 1])]\<rparr>)
   \<and> execute \<lparr>qubits = [\<lparr>alpha = ONE, beta = ZERO\<rparr>, \<lparr>alpha = ONE, beta = ZERO\<rparr>],
                operations = [(PauliXGate, [0]), (CZGate, [0, 1])]\<rparr>
       = (Inr (), \<lparr>qubits = [\<lparr>alpha = ZERO, beta = ONE\<rparr>,
                             \<lparr>alpha = ONE, beta = complex NaN NaN\<rparr>],
                   operations = [(PauliXGate, [0]), (CZGate, [0, 1])]\<rparr>)
   \<and> nadd (probabilityZero \<lparr>alpha = ONE, beta = complex NaN NaN\<rparr>)
          (probabilityOne \<lparr>alpha = ONE, beta = complex NaN NaN\<rparr>) = NaN
   \<and> \<not> approx (nadd (probabilityZero \<lparr>alpha = ONE, beta = complex NaN NaN\<rparr>)
                     (probabilityOne \<lparr>alpha = ONE, beta = complex NaN NaN\<rparr>))
               1 (1 / 10 ^ 9)"
proof -
  have a: "applySingleQubitGate PauliXGate 0 \<lparr>sv_numQubits = 1, sv_stateVector = [ONE, ZERO]\<rparr>
       = (Inr (), \<lparr>sv_numQubits = 1, sv_stateVector = [complex NaN NaN, complex NaN NaN]\<rparr>)"
    by (simp add: applySingleQubitGate_def PauliXGate_def SingleQubitGate_def dimension_def
        shl_1_1 upt_2 single_step_def band_1 shr_0 bxor_1 shl_1_0 scale_def add_def
        complex_def ONE_def ZERO_def numeral_2_eq_2)
  have b: "norm_sq [complex NaN NaN, complex NaN NaN] = NaN"
    by (simp add: norm_sq_def magnitude_def npow2_def complex_def)
  have c: "new_QuantumCircuit 2
       = Inr \<lparr>qubits = [\<lparr>alpha = ONE, beta = ZERO\<rparr>, \<lparr>alpha = ONE, beta = ZERO\<rparr>],
              operations = []\<rparr>"
    by (simp add: new_QuantumCircuit_def new_Qubit_default numeral_2_eq_2)
  have d: "addGate PauliXGate [0]
         \<lparr>qubits = [\<lparr>alpha = ONE, beta = ZERO\<rparr>, \<lparr>alpha = ONE, beta = ZERO\<rparr>],
          operations = []\<rparr>
       = (Inr (), \<lparr>qubits = [\<lparr>alpha = ONE, beta = ZERO\<rparr>, \<lparr>alpha = ONE, beta = ZERO\<rparr>],
                   operations = [(PauliXGate, [0])]\<rparr>)"
    by (simp add: addGate_def PauliXGate_def SingleQubitGate_def)
  have e: "addGate CZGate [0, 1]
         \<lparr>qubits = [\<lparr>alpha = ONE, beta = ZERO\<rparr>, \<lparr>alpha = ONE, beta = ZERO\<rparr>],
          operations = [(PauliXGate, [0])]\<rparr>
       = (Inr (), \<lparr>qubits = [\<lparr>alpha = ONE, beta = ZERO\<rparr>, \<lparr>alpha = ONE, beta = ZERO\<rparr>],
                   operations = [(PauliXGate, [0]), (CZGate, [0, 1])]\<rparr>)"
    by (simp add: addGate_def CZGate_def)
  have x: "gate_apply PauliXGate (map nat [0])
         [\<lparr>alpha = ONE, beta = ZERO\<rparr>, \<lparr>alpha = ONE, beta = ZERO\<rparr>]
       = Inr [\<lparr>alpha = ZERO, beta = ONE\<rparr>, \<lparr>alpha = ONE, beta = ZERO\<rparr>]"
    by (simp add: PauliXGate_def SingleQubitGate_def SingleQubitGate_apply_def Let_def
        Qubit_setState_def Qubit_normalize_def multiply_def add_def nsub_def ZERO_def ONE_def
        complex_def magnitude_def npow2_def ngt_def scale_def)
  have z: "gate_apply CZGate (map nat [0, 1])
         [\<lparr>alpha = ZERO, beta = ONE\<rparr>, \<lparr>alpha = ONE, beta = ZERO\<rparr>]
       = Inr [\<lparr>alpha = ZERO, beta = ONE\<rparr>, \<lparr>alpha = ONE, beta = complex NaN NaN\<rparr>]"
    by (simp add: CZGate_def CZGate_apply_def Let_def probabilityOne_def
        Qubit_setState_def Qubit_normalize_def nsub_def ZERO_def ONE_def complex_def
        magnitude_def npow2_def ngt_def scale_def)
  have f: "execute \<lparr>qubits = [\<lparr>alpha = ONE, beta = ZERO\<rparr>, \<lparr>alpha = ONE, beta = ZERO\<rparr>],
                operations = [(PauliXGate, [0]), (CZGate, [0, 1])]\<rparr>
       = (Inr (), \<lparr>qubits = [\<lparr>alpha = ZERO, beta = ONE\<rparr>,
                             \<lparr>alpha = ONE, beta = complex NaN NaN\<rparr>],
                   operations = [(PauliXGate, [0]), (CZGate, [0, 1])]\<rparr>)"
    by (simp add: execute_def x z del: list.map)
  have g: "nadd (probabilityZero \<lparr>alpha = ONE, beta = complex NaN NaN\<rparr>)
          (probabilityOne \<lparr>alpha = ONE, beta = complex NaN NaN\<rparr>) = NaN"
    by (simp add: probabilityZero_def probabilityOne_def magnitude_def npow2_def complex_def
        ONE_def)
  show ?thesis
    using a b c d e f g new_StateVector_1 by simp
qed

text \<open>
  C5, at a failing input. \<open>setState\<close> accepts the vector \<open>[NaN, Infinity]\<close>: its norm is
  NaN, and the comparison that rejects a vector is false. \<open>measure(0)\<close> with the draw
  \<open>0.5\<close> returns 1 (the mass on 1 is infinite); the division by the square root of the
  kept mass turns the kept amplitude into NaN, so the mass on 1 is NaN afterwards, and a
  second \<open>measure(0)\<close> with the same draw returns 0.
\<close>

theorem collapse_fails_on_infinite_amplitude:
  "new_StateVector 1 = Inr \<lparr>sv_numQubits = 1, sv_stateVector = [ONE, ZERO]\<rparr>
   \<and> StateVector_setState [complex NaN (Fin 0), complex PInf (Fin 0)]
         \<lparr>sv_numQubits = 1, sv_stateVector = [ONE, ZERO]\<rparr>
       = (Inr (), \<lparr>sv_numQubits = 1,
                   sv_stateVector = [complex NaN (Fin 0), complex PInf (Fin 0)]\<rparr>)
   \<and> StateVector_measure 0 (1 / 2)
         \<lparr>sv_numQubits = 1, sv_stateVector = [complex NaN (Fin 0), complex PInf (Fin 0)]\<rparr>
       = (Inr 1, \<lparr>sv_numQubits = 1, sv_stateVector = [ZERO, complex NaN (Fin 0)]\<rparr>)
   \<and> fst (StateVector_measure 0 (1 / 2)
            \<lparr>sv_numQubits = 1, sv_stateVector = [ZERO, complex NaN (Fin 0)]\<rparr>)
       = Inr 0"
proof -
  have a: "StateVector_setState [complex NaN (Fin 0), complex PInf (Fin 0)]
         \<lparr>sv_numQubits = 1, sv_stateVector = [ONE, ZERO]\<rparr>
       = (Inr (), \<lparr>sv_numQubits = 1,
                   sv_stateVector = [complex NaN (Fin 0), complex PInf (Fin 0)]\<rparr>)"
    by (simp add: StateVector_setState_def dimension_def shl_1_1 norm_sq_def magnitude_def
        npow2_def complex_def nsub_def ngt_def)
  have b: "StateVector_measure 0 (1 / 2)
         \<lparr>sv_numQubits = 1, sv_stateVector = [complex NaN (Fin 0), complex PInf (Fin 0)]\<rparr>
       = (Inr 1, \<lparr>sv_numQubits = 1, sv_stateVector = [ZERO, complex NaN (Fin 0)]\<rparr>)"
    by (simp add: StateVector_measure_def dimension_def shl_1_1 upt_2 measure_prob1_def
        measure_collapse_def measure_renormalize_def band_1 shr_0 magnitude_def npow2_def
        ZERO_def complex_def scale_def numeral_2_eq_2)
  have c: "fst (StateVector_measure 0 (1 / 2)
            \<lparr>sv_numQubits = 1, sv_stateVector = [ZERO, complex NaN (Fin 0)]\<rparr>)
       = Inr 0"
    by (simp add: StateVector_measure_def dimension_def shl_1_1 upt_2 measure_prob1_def
        measure_collapse_def measure_renormalize_def band_1 shr_0 magnitude_def npow2_def
        ZERO_def complex_def scale_def numeral_2_eq_2)
  show ?thesis
    using a b c new_StateVector_1 by simp
qed

end
